theory Spec2Isabelle
  imports Complex_Main
begin

section \<open>Characters and the string primitives of the metric extractor\<close>

text \<open>
  Source text is a \<^typ>\<open>string\<close>: a list of 8-bit characters, read as the code points
  0 to 255.  The character classes below are the ones Python uses on \<open>str\<close> values,
  restricted to that range: \<open>str.isspace\<close> (used by \<open>strip\<close> and by the regex class
  \<open>\s\<close>), the line boundaries of \<open>str.splitlines\<close>, and \<open>str.isalnum\<close> plus the underscore
  (the regex class \<open>\w\<close>, which also decides the word boundary \<open>\b\<close>).
\<close>

definition code :: "char \<Rightarrow> nat" where
  "code c = of_char c"

definition is_space :: "char \<Rightarrow> bool" where
  "is_space c = (let n = code c in
     (9 \<le> n \<and> n \<le> 13) \<or> (28 \<le> n \<and> n \<le> 32) \<or> n = 133 \<or> n = 160)"

definition is_linebreak :: "char \<Rightarrow> bool" where
  "is_linebreak c = (let n = code c in
     (10 \<le> n \<and> n \<le> 13) \<or> (28 \<le> n \<and> n \<le> 30) \<or> n = 133)"

definition is_word :: "char \<Rightarrow> bool" where
  "is_word c = (let n = code c in
     (48 \<le> n \<and> n \<le> 57) \<or> (65 \<le> n \<and> n \<le> 90) \<or> n = 95 \<or> (97 \<le> n \<and> n \<le> 122)
     \<or> n = 170 \<or> n = 178 \<or> n = 179 \<or> n = 181 \<or> n = 185 \<or> n = 186
     \<or> (188 \<le> n \<and> n \<le> 190) \<or> (192 \<le> n \<and> n \<le> 214)
     \<or> (216 \<le> n \<and> n \<le> 246) \<or> (248 \<le> n \<and> n \<le> 255))"

text \<open>\<open>str.lower\<close> on one character of the range.\<close>

definition lower_char :: "char \<Rightarrow> char" where
  "lower_char c = (let n = code c in
     if (65 \<le> n \<and> n \<le> 90) \<or> (192 \<le> n \<and> n \<le> 214) \<or> (216 \<le> n \<and> n \<le> 222)
     then char_of (n + 32) else c)"

definition lower :: "string \<Rightarrow> string" where
  "lower s = map lower_char s"

text \<open>\<open>str.strip()\<close>: whitespace removed at both ends.\<close>

definition strip :: "string \<Rightarrow> string" where
  "strip s = rev (dropWhile is_space (rev (dropWhile is_space s)))"

text \<open>
  \<open>str.splitlines()\<close>: the text is cut at every line boundary, \<open>\r\n\<close> counting as one
  boundary; the boundaries are dropped and a final boundary opens no further line.
  The first argument is the line being collected.
\<close>

fun splitlines_from :: "string \<Rightarrow> string \<Rightarrow> string list" where
  "splitlines_from cur [] = (if cur = [] then [] else [cur])"
| "splitlines_from cur [c] =
     (if is_linebreak c then [cur] else [cur @ [c]])"
| "splitlines_from cur (c # d # cs) =
     (if code c = 13 \<and> code d = 10 then cur # splitlines_from [] cs
      else if is_linebreak c then cur # splitlines_from [] (d # cs)
      else splitlines_from (cur @ [c]) (d # cs))"

definition splitlines :: "string \<Rightarrow> string list" where
  "splitlines s = splitlines_from [] s"

text \<open>\<open>str.startswith\<close> and the substring test \<open>sub in s\<close>.\<close>

definition startswith :: "string \<Rightarrow> string \<Rightarrow> bool" where
  "startswith s p = (take (length p) s = p)"

fun contains :: "string \<Rightarrow> string \<Rightarrow> bool" where
  "contains [] p = (p = [])"
| "contains (c # cs) p = (startswith (c # cs) p \<or> contains cs p)"

section \<open>The regular expressions of the metric extractor\<close>

text \<open>
  The five patterns of \<open>static_analysis.py\<close> use literals, the classes \<open>\w\<close>, \<open>\s\<close> and
  \<open>.\<close>, the greedy repetitions \<open>+\<close> and \<open>*\<close> of one class, ordered alternation, and
  the word boundary \<open>\b\<close>.  A pattern is a sequence of such items; the flag of an
  alternation says whether it is read under \<open>re.IGNORECASE\<close>.  Matching is the
  backtracking search of Python's \<open>re\<close>: each item yields, in order of preference, the
  positions where it can stop, and the first complete path wins.  A position is
  the character just before it (if any) and the text still to read.
\<close>

datatype cls = Word | Space | Dot

fun in_cls :: "cls \<Rightarrow> char \<Rightarrow> bool" where
  "in_cls Word c = is_word c"
| "in_cls Space c = is_space c"
| "in_cls Dot c = (code c \<noteq> 10)"

datatype item =
    Lit string
  | Star cls
  | Plus cls
  | Bound
  | Alt bool "string list"

type_synonym pos = "char option \<times> string"

fun last_of :: "char option \<Rightarrow> string \<Rightarrow> char option" where
  "last_of p [] = p"
| "last_of p (c # cs) = last_of (Some c) cs"

text \<open>A literal, read exactly (\<open>ci = False\<close>) or under \<open>re.IGNORECASE\<close>.\<close>

definition lit :: "bool \<Rightarrow> string \<Rightarrow> pos \<Rightarrow> pos list" where
  "lit ci l ps = (case ps of (p, s) \<Rightarrow>
     let t = take (length l) s in
     if length t = length l \<and> (if ci then lower t = lower l else t = l)
     then [(last_of p t, drop (length l) s)] else [])"

text \<open>Greedy repetition of a class: the longest run first, then every shorter one.\<close>

fun star :: "cls \<Rightarrow> pos \<Rightarrow> pos list" where
  "star k (p, []) = [(p, [])]"
| "star k (p, c # cs) =
     (if in_cls k c then star k (Some c, cs) @ [(p, c # cs)] else [(p, c # cs)])"

definition plus :: "cls \<Rightarrow> pos \<Rightarrow> pos list" where
  "plus k ps = (case ps of
       (p, []) \<Rightarrow> []
     | (p, c # cs) \<Rightarrow> if in_cls k c then star k (Some c, cs) else [])"

text \<open>
  \<open>\b\<close> holds where exactly one of the character before and the character after is
  a word character; the start and the end of the text count as non-word.
\<close>

definition word_before :: "char option \<Rightarrow> bool" where
  "word_before p = (case p of None \<Rightarrow> False | Some c \<Rightarrow> is_word c)"

definition word_after :: "string \<Rightarrow> bool" where
  "word_after s = (case s of [] \<Rightarrow> False | c # cs \<Rightarrow> is_word c)"

definition at_boundary :: "pos \<Rightarrow> bool" where
  "at_boundary ps = (case ps of (p, s) \<Rightarrow> word_before p \<noteq> word_after s)"

fun step :: "item \<Rightarrow> pos \<Rightarrow> pos list" where
  "step (Lit l) ps = lit False l ps"
| "step (Star k) ps = star k ps"
| "step (Plus k) ps = plus k ps"
| "step Bound ps = (if at_boundary ps then [ps] else [])"
| "step (Alt ci ls) ps = concat (map (\<lambda>l. lit ci l ps) ls)"

fun run :: "item list \<Rightarrow> pos \<Rightarrow> pos list" where
  "run [] ps = [ps]"
| "run (i # is) ps = concat (map (run is) (step i ps))"

text \<open>
  \<open>match_at\<close> is the match that starts at a position, as the number of characters
  it spans, if there is one.
\<close>

definition match_at :: "item list \<Rightarrow> pos \<Rightarrow> nat option" where
  "match_at r ps = (case run r ps of
       [] \<Rightarrow> None
     | q # qs \<Rightarrow> Some (length (snd ps) - length (snd q)))"

text \<open>
  \<open>len(pattern.findall(text))\<close>: the text is scanned from left to right, a match is
  counted where one starts, and the scan goes on behind it.  The second argument
  is the number of characters still covered by the last match.
\<close>

fun findall_from :: "item list \<Rightarrow> nat \<Rightarrow> char option \<Rightarrow> string \<Rightarrow> nat" where
  "findall_from r k p [] =
     (if k = 0 \<and> match_at r (p, []) \<noteq> None then 1 else 0)"
| "findall_from r (Suc k) p (c # cs) = findall_from r k (Some c) cs"
| "findall_from r 0 p (c # cs) =
     (case match_at r (p, c # cs) of
        None \<Rightarrow> findall_from r 0 (Some c) cs
      | Some n \<Rightarrow> 1 + findall_from r (n - 1) (Some c) cs)"

definition findall_count :: "item list \<Rightarrow> string \<Rightarrow> nat" where
  "findall_count r s = findall_from r 0 None s"

text \<open>The patterns, in the order in which the source compiles them.\<close>

definition CONTROL_KEYWORDS :: "item list" where
  "CONTROL_KEYWORDS =
     [Bound,
      Alt False [''if'', ''elif'', ''for'', ''while'', ''and'', ''or'', ''case'',
                 ''except'', ''catch'', ''&&'', ''||''],
      Bound]"

definition function_patterns :: "item list list" where
  "function_patterns =
     [[Bound, Lit ''def'', Plus Space, Plus Word, Star Space, Lit ''(''],
      [Bound, Lit ''function'', Plus Space, Plus Word, Star Space, Lit ''(''],
      [Bound, Plus Word, Plus Space, Plus Word, Star Space, Lit ''('', Star Dot,
       Lit '')'', Star Space, Lit ''{'']]"

definition todo_pattern :: "item list" where
  "todo_pattern = [Bound, Alt True [''TODO'', ''FIXME''], Bound]"

section \<open>The metric extractor\<close>

text \<open>
  \<open>analyze_code\<close> of \<open>static_analysis.py\<close>.  Every metric is a Python float holding a
  count, except \<open>avg_line_length\<close>, a quotient of two counts; they are modelled as
  reals.  The local values of the function come first, the dictionary it returns last.
\<close>

definition non_empty_lines :: "string \<Rightarrow> string list" where
  "non_empty_lines code_text = filter (\<lambda>line. strip line \<noteq> []) (splitlines code_text)"

definition is_comment_line :: "string \<Rightarrow> bool" where
  "is_comment_line line = (let stripped = strip line in
     (startswith stripped ''#'' \<or> startswith stripped ''//'') \<or> contains stripped ''/*'')"

definition num_comments :: "string \<Rightarrow> nat" where
  "num_comments code_text = length (filter is_comment_line (splitlines code_text))"

definition num_functions :: "string \<Rightarrow> nat" where
  "num_functions code_text =
     fold (\<lambda>pat acc. acc + findall_count pat code_text) function_patterns 0"

definition cyclomatic_complexity_estimate :: "string \<Rightarrow> real" where
  "cyclomatic_complexity_estimate code_text =
     real (findall_count CONTROL_KEYWORDS code_text) + 1"

definition avg_line_length :: "string \<Rightarrow> real" where
  "avg_line_length code_text = (let ls = non_empty_lines code_text in
     if ls \<noteq> [] then real (sum_list (map length ls)) / real (length ls) else 0)"

definition num_todos :: "string \<Rightarrow> nat" where
  "num_todos code_text = findall_count todo_pattern code_text"

definition analyze_code :: "string \<Rightarrow> (string \<rightharpoonup> real)" where
  "analyze_code code_text = map_of
     [(''loc'', real (length (non_empty_lines code_text))),
      (''num_comments'', real (num_comments code_text)),
      (''num_functions'', real (num_functions code_text)),
      (''cyclomatic_complexity_estimate'', cyclomatic_complexity_estimate code_text),
      (''avg_line_length'', avg_line_length code_text),
      (''num_todos'', real (num_todos code_text))]"

text \<open>The scenario text of the specification.\<close>

definition scenario :: string where
  "scenario =
     ''def foo():\<newline>    # comment\<newline>    if x and y:\<newline>        pass\<newline>''"

section \<open>The feature vectorizer\<close>

definition FEATURE_COLUMNS :: "string list" where
  "FEATURE_COLUMNS =
     [''loc'', ''num_comments'', ''num_functions'', ''cyclomatic_complexity_estimate'',
      ''avg_line_length'', ''num_todos'']"

text \<open>
  A data frame of floats, as \<open>pd.DataFrame(dicts, columns=cols)\<close> builds it: one row
  per dictionary, one cell per column, \<open>None\<close> (pandas' NaN) where the dictionary has
  no such key.
\<close>

record frame =
  columns :: "string list"
  rows :: "real option list list"

definition DataFrame :: "(string \<rightharpoonup> real) list \<Rightarrow> string list \<Rightarrow> frame" where
  "DataFrame dicts cols = \<lparr>columns = cols, rows = map (\<lambda>d. map d cols) dicts\<rparr>"

text \<open>\<open>metrics.get(name, 0.0)\<close>.\<close>

definition get_or :: "('k \<rightharpoonup> 'v) \<Rightarrow> 'k \<Rightarrow> 'v \<Rightarrow> 'v" where
  "get_or m k d = (case m k of None \<Rightarrow> d | Some v \<Rightarrow> v)"

definition metrics_to_features :: "(string \<rightharpoonup> real) \<Rightarrow> frame" where
  "metrics_to_features metrics =
     (let row = map_of (map (\<lambda>name. (name, get_or metrics name 0)) FEATURE_COLUMNS)
      in DataFrame [row] FEATURE_COLUMNS)"

section \<open>The model provider\<close>

text \<open>
  What \<open>pickle.load\<close> can return is any Python object: a classifier, or something
  else (kept by a description of it).
\<close>

datatype 'c pyobj = Classifier 'c | Other string

text \<open>
  The libraries \<open>feature_extract.py\<close> calls, as far as the function uses them:
  \<open>pickle.load\<close> on the bytes of a file (\<open>None\<close> when it raises),
  \<open>np.random.default_rng(seed)\<close>, which makes a fresh generator of type \<open>'g\<close>,
  \<open>rng.normal(loc=0.0, scale=1.0, size=(n, m))\<close>, which draws a matrix and moves the
  generator on, \<open>RandomForestClassifier(n_estimators, random_state).fit(X, y)\<close>, and
  the \<open>predict\<close> of a classifier.
\<close>

record ('c, 'g) sklearn =
  pickle_load :: "string \<Rightarrow> 'c pyobj option"
  default_rng :: "nat \<Rightarrow> 'g"
  normal :: "'g \<Rightarrow> nat \<Rightarrow> nat \<Rightarrow> real list list \<times> 'g"
  forest_fit :: "nat \<Rightarrow> nat \<Rightarrow> real list list \<Rightarrow> nat list \<Rightarrow> 'c"
  predict :: "'c \<Rightarrow> real list \<Rightarrow> nat"

text \<open>\<open>list.index\<close>, for an element that is in the list.\<close>

fun index :: "'a list \<Rightarrow> 'a \<Rightarrow> nat" where
  "index [] x = 0"
| "index (y # ys) x = (if y = x then 0 else Suc (index ys x))"

text \<open>
  The synthetic training set of \<open>_train_fallback_model\<close>, and the model fitted to it
  (the function is \<open>train_fallback_model\<close> here, as \<open>_map_promise_to_features\<close> is
  \<open>map_promise_to_features\<close> below: a name cannot start with an underscore).
\<close>

definition synthetic_X :: "('c, 'g) sklearn \<Rightarrow> real list list" where
  "synthetic_X L = (let rng = default_rng L 42; n = 128
     in fst (normal L rng n (length FEATURE_COLUMNS)))"

definition synthetic_y :: "real list list \<Rightarrow> nat list" where
  "synthetic_y X = map (\<lambda>row.
       if row ! index FEATURE_COLUMNS ''cyclomatic_complexity_estimate''
          + 0.8 * row ! index FEATURE_COLUMNS ''num_todos''
          + 0.4 * row ! index FEATURE_COLUMNS ''loc'' > 0.5
       then 1 else 0) X"

definition train_fallback_model :: "('c, 'g) sklearn \<Rightarrow> 'c" where
  "train_fallback_model L = (let X = synthetic_X L; y = synthetic_y X
     in forest_fit L 100 42 X y)"

text \<open>
  The file system: at a path there is nothing, or something \<open>open\<close> cannot read (a
  directory, a file without permission), or a file with its bytes.  The world of a
  process is the file system and the log of the load and train steps done so far.
\<close>

datatype node = Unopenable | File string

datatype step_event = Load string | Train

record world =
  files :: "string \<rightharpoonup> node"
  steps :: "step_event list"

text \<open>\<open>os.path.basename\<close>: what follows the last slash.\<close>

definition basename :: "string \<Rightarrow> string" where
  "basename p = rev (takeWhile (\<lambda>c. c \<noteq> CHR ''/'') (rev p))"

definition fallback :: "('c, 'g) sklearn \<Rightarrow> world \<Rightarrow> ('c pyobj \<times> string) \<times> world" where
  "fallback L w =
     ((Classifier (train_fallback_model L), ''Fallback RandomForest (synthetic)''),
      w\<lparr>steps := steps w @ [Train]\<rparr>)"

text \<open>
  \<open>load_or_train_model\<close>: every exception of the \<open>try\<close> block (from \<open>open\<close> or from
  \<open>pickle.load\<close>) falls through to the fallback.
\<close>

definition load_or_train_model ::
  "('c, 'g) sklearn \<Rightarrow> string \<Rightarrow> world \<Rightarrow> ('c pyobj \<times> string) \<times> world" where
  "load_or_train_model L model_path w =
     (case files w model_path of
        None \<Rightarrow> fallback L w
      | Some Unopenable \<Rightarrow> fallback L w
      | Some (File bytes) \<Rightarrow>
          (let w' = w\<lparr>steps := steps w @ [Load model_path]\<rparr> in
           case pickle_load L bytes of
             None \<Rightarrow> fallback L w'
           | Some model \<Rightarrow>
               ((model, ''Loaded saved model ('' @ basename model_path @ '')''), w')))"

section \<open>The dataset ingestor\<close>

text \<open>
  A cell of a frame read by \<open>pd.read_csv\<close> is a boolean, an integer, a float or a
  string.  Floats are a type \<open>'f\<close> of their own, NaN (a missing value) among them.
  A raw frame has a number of rows and named columns of cells.
\<close>

datatype 'f cell = B bool | I int | F 'f | S string

record 'f raw =
  nrows :: nat
  cols :: "(string \<times> 'f cell list) list"

text \<open>
  The pandas operations whose result on a cell is not written in this repository:
  \<open>str\<close> of a float, the test for NaN, the float \<open>0.0\<close>, \<open>Series.astype(int)\<close> and
  \<open>Series.astype(float)\<close> (\<open>None\<close> when the cast raises), \<open>Series.replace(0, 1)\<close>, and
  the division of two float series.
\<close>

record 'f pandas =
  float_str :: "'f \<Rightarrow> string"
  isna :: "'f \<Rightarrow> bool"
  float_zero :: "'f"
  astype_int :: "'f cell list \<Rightarrow> int list option"
  astype_float :: "'f cell list \<Rightarrow> 'f list option"
  replace_0_1 :: "'f cell list \<Rightarrow> 'f cell list"
  truediv :: "'f list \<Rightarrow> 'f list \<Rightarrow> 'f list"

text \<open>
  The exceptions of \<open>_map_promise_to_features\<close>: the three \<open>ValueError\<close>s it raises
  itself (no \<open>defects\<close> or \<open>label\<close> column, no loc column, no complexity column), and
  what a failed cast raises.
\<close>

datatype error = Missing_label | Missing_loc | Missing_complexity | CastError

definition bind :: "error + 'a \<Rightarrow> ('a \<Rightarrow> error + 'b) \<Rightarrow> error + 'b" where
  "bind r f = (case r of Inl e \<Rightarrow> Inl e | Inr v \<Rightarrow> f v)"

definition cast :: "'a option \<Rightarrow> error + 'a" where
  "cast r = (case r of None \<Rightarrow> Inl CastError | Some v \<Rightarrow> Inr v)"

text \<open>\<open>str\<close> of a cell, as \<open>Series.astype(str)\<close> applies it.\<close>

fun digits :: "nat \<Rightarrow> string" where
  "digits n = (if n < 10 then [char_of (48 + n)]
     else digits (n div 10) @ [char_of (48 + n mod 10)])"

definition int_str :: "int \<Rightarrow> string" where
  "int_str i = (if i < 0 then CHR ''-'' # digits (nat (- i)) else digits (nat i))"

fun py_str :: "'f pandas \<Rightarrow> 'f cell \<Rightarrow> string" where
  "py_str P (B b) = (if b then ''True'' else ''False'')"
| "py_str P (I i) = int_str i"
| "py_str P (F x) = float_str P x"
| "py_str P (S s) = s"

text \<open>
  One cell of \<open>df["defects"].astype(str).str.lower().map({"true": 1, "false": 0})\<close>;
  \<open>None\<close> is the NaN that \<open>map\<close> leaves where the key is not in the dictionary.
\<close>

definition defect_label :: "'f pandas \<Rightarrow> 'f cell \<Rightarrow> int option" where
  "defect_label P c = map_of [(''true'', 1), (''false'', 0)] (lower (py_str P c))"

definition get :: "'f raw \<Rightarrow> string \<Rightarrow> 'f cell list option" where
  "get df name = map_of (cols df) name"

text \<open>
  Lines 31 to 36 of \<open>promise_ingest.py\<close>: the label column, NaN where a \<open>defects\<close>
  value is neither \<open>true\<close> nor \<open>false\<close>.
\<close>

definition resolve_label :: "'f pandas \<Rightarrow> 'f raw \<Rightarrow> error + int option list" where
  "resolve_label P df =
     (case get df ''defects'' of
        Some c \<Rightarrow> Inr (map (defect_label P) c)
      | None \<Rightarrow>
          (case get df ''label'' of
             Some c \<Rightarrow> bind (cast (astype_int P c)) (\<lambda>ls. Inr (map Some ls))
           | None \<Rightarrow> Inl Missing_label))"

text \<open>The first column present among several names, in the order given.\<close>

fun first_present :: "'f raw \<Rightarrow> string list \<Rightarrow> 'f cell list option" where
  "first_present df [] = None"
| "first_present df (name # names) =
     (case get df name of Some c \<Rightarrow> Some c | None \<Rightarrow> first_present df names)"

text \<open>\<open>label.astype(int)\<close> on the resolved labels: NaN cannot be cast.\<close>

definition labels_int :: "int option list \<Rightarrow> error + int list" where
  "labels_int ls = (if list_all (\<lambda>l. l \<noteq> None) ls then Inr (map the ls) else Inl CastError)"

text \<open>
  A mapped frame is a list of training records: the six features in schema order,
  and the label.
\<close>

type_synonym 'f record_row = "'f list \<times> int"

definition map_promise_to_features :: "'f pandas \<Rightarrow> 'f raw \<Rightarrow> error + 'f record_row list" where
  "map_promise_to_features P df =
     bind (resolve_label P df) (\<lambda>label.
     case first_present df [''loc'', ''lOCode'', ''locCodeAndComment''] of
       None \<Rightarrow> Inl Missing_loc
     | Some loc \<Rightarrow>
     (case first_present df [''v(g)'', ''branchCount''] of
       None \<Rightarrow> Inl Missing_complexity
     | Some v_g \<Rightarrow>
     (let lOComment = (case get df ''lOComment'' of
                         Some c \<Rightarrow> c | None \<Rightarrow> replicate (nrows df) (F (float_zero P)));
          n_total = (case get df ''n'' of
                       Some c \<Rightarrow> c | None \<Rightarrow> replicate (nrows df) (F (float_zero P)))
      in
      bind (cast (astype_float P n_total)) (\<lambda>n_f.
      bind (cast (astype_float P (replace_0_1 P loc))) (\<lambda>loc1_f.
      let avg_line_length = truediv P n_f loc1_f in
      bind (cast (astype_float P loc)) (\<lambda>loc_f.
      bind (cast (astype_float P lOComment)) (\<lambda>com_f.
      bind (cast (astype_float P v_g)) (\<lambda>vg_f.
      bind (labels_int label) (\<lambda>lab.
      Inr (map (\<lambda>(l, c, v, a, y). ([l, c, float_zero P, v, a, float_zero P], y))
             (zip loc_f (zip com_f (zip vg_f (zip avg_line_length lab))))))))))))))"

definition PROMISE_FILENAMES :: "string list" where
  "PROMISE_FILENAMES = [''cm1.csv'', ''kc1.csv'', ''kc2.csv'', ''pc1.csv'', ''jm1.csv'']"

text \<open>\<open>os.path.join\<close> of a directory and a relative file name.\<close>

definition join :: "string \<Rightarrow> string \<Rightarrow> string" where
  "join base_dir name =
     (if base_dir = [] \<or> last base_dir = CHR ''/'' then base_dir @ name
      else base_dir @ ''/'' @ name)"

text \<open>
  A dataset source on disk: at a path there is nothing, or a file \<open>pd.read_csv\<close>
  raises on, or a file it reads into a raw frame.
\<close>

datatype 'f csv = Malformed | Table "'f raw"

text \<open>The loop of \<open>load_promise_datasets\<close>: the frames it has appended, in order.\<close>

fun gather ::
  "'f pandas \<Rightarrow> (string \<rightharpoonup> 'f csv) \<Rightarrow> string \<Rightarrow> string list \<Rightarrow> 'f record_row list list" where
  "gather P fs base_dir [] = []"
| "gather P fs base_dir (name # names) =
     (case fs (join base_dir name) of
        None \<Rightarrow> gather P fs base_dir names
      | Some Malformed \<Rightarrow> gather P fs base_dir names
      | Some (Table df_raw) \<Rightarrow>
          (case map_promise_to_features P df_raw of
             Inl e \<Rightarrow> gather P fs base_dir names
           | Inr df_mapped \<Rightarrow> df_mapped # gather P fs base_dir names))"

text \<open>\<open>dropna\<close>: a row with a NaN feature is dropped (a label is an integer).\<close>

definition dropna :: "'f pandas \<Rightarrow> 'f record_row list \<Rightarrow> 'f record_row list" where
  "dropna P rs = filter (\<lambda>r. \<not> list_ex (isna P) (fst r)) rs"

definition load_promise_datasets ::
  "'f pandas \<Rightarrow> (string \<rightharpoonup> 'f csv) \<Rightarrow> string \<Rightarrow> 'f record_row list option" where
  "load_promise_datasets P fs base_dir =
     (let dataframes = gather P fs base_dir PROMISE_FILENAMES in
      if dataframes = [] then None
      else Some (dropna P (concat dataframes)))"

section \<open>Small instances of the libraries\<close>

text \<open>
  The theorems below hold for every instance of the library records.  The concrete
  runs need one of each.  In \<open>toy_sklearn\<close> a generator is its seed, a fitted forest is
  the label list it was given, and two file contents unpickle: one to a forest, one
  to a string object.
\<close>

definition toy_sklearn :: "(nat list, nat) sklearn" where
  "toy_sklearn =
     \<lparr>pickle_load = (\<lambda>bytes.
        if bytes = ''forest'' then Some (Classifier [])
        else if bytes = ''text'' then Some (Other ''str'')
        else None),
      default_rng = (\<lambda>seed. seed),
      normal = (\<lambda>g n m. (replicate n (replicate m (real g)), Suc g)),
      forest_fit = (\<lambda>n_estimators random_state X y. y),
      predict = (\<lambda>c v. 0)\<rparr>"

text \<open>
  In \<open>toy_pandas\<close> a float is a real or NaN (\<open>None\<close>); the casts accept booleans,
  integers and floats and raise on a string.
\<close>

fun toy_int :: "real option cell \<Rightarrow> int option" where
  "toy_int (B b) = Some (if b then 1 else 0)"
| "toy_int (I i) = Some i"
| "toy_int (F x) = map_option floor x"
| "toy_int (S s) = None"

fun toy_float :: "real option cell \<Rightarrow> real option option" where
  "toy_float (B b) = Some (Some (if b then 1 else 0))"
| "toy_float (I i) = Some (Some (of_int i))"
| "toy_float (F x) = Some x"
| "toy_float (S s) = None"

fun toy_div :: "real option \<Rightarrow> real option \<Rightarrow> real option" where
  "toy_div (Some x) (Some y) = (if y = 0 then None else Some (x / y))"
| "toy_div x y = None"

definition toy_pandas :: "real option pandas" where
  "toy_pandas =
     \<lparr>float_str = (\<lambda>x. case x of None \<Rightarrow> ''nan'' | Some r \<Rightarrow> ''0.0''),
      isna = (\<lambda>x. x = None),
      float_zero = Some 0,
      astype_int = (\<lambda>cs. those (map toy_int cs)),
      astype_float = (\<lambda>cs. those (map toy_float cs)),
      replace_0_1 = map (\<lambda>c. if c = I 0 then I 1 else if c = F (Some 0) then F (Some 1) else c),
      truediv = map2 toy_div\<rparr>"

text \<open>Two dataset sources: one that maps, and one without a loc column.\<close>

definition good_table :: "real option raw" where
  "good_table =
     \<lparr>nrows = 2,
      cols = [(''loc'', [I 10, I 0]), (''v(g)'', [I 2, I 1]), (''n'', [I 50, I 3]),
              (''defects'', [S ''True'', S ''false''])]\<rparr>"

definition bad_table :: "real option raw" where
  "bad_table = \<lparr>nrows = 1, cols = [(''v(g)'', [I 2]), (''defects'', [B True])]\<rparr>"

definition label_table :: "real option raw" where
  "label_table =
     \<lparr>nrows = 1, cols = [(''lOCode'', [I 7]), (''branchCount'', [I 3]), (''label'', [I 1])]\<rparr>"

definition unlabeled_table :: "real option raw" where
  "unlabeled_table = \<lparr>nrows = 1, cols = [(''loc'', [I 7]), (''v(g)'', [I 3])]\<rparr>"

text \<open>
  A source whose \<open>defects\<close> column holds only true and false: \<open>read_csv\<close> reads such a
  column as booleans.
\<close>

definition bool_table :: "real option raw" where
  "bool_table =
     \<lparr>nrows = 2,
      cols = [(''loc'', [I 10, I 0]), (''v(g)'', [I 2, I 1]), (''n'', [I 50, I 3]),
              (''defects'', [B True, B False])]\<rparr>"

section \<open>Properties of the metric extractor\<close>

lemma strip_Nil: "strip [] = []"
  by (simp add: strip_def)

lemma strip_nonempty: "strip l \<noteq> [] \<Longrightarrow> l \<noteq> []"
  using strip_Nil by blast

lemma comment_line_nonempty: "is_comment_line l \<Longrightarrow> strip l \<noteq> []"
  by (auto simp add: is_comment_line_def startswith_def Let_def)

lemma non_empty_lines_length:
  "l \<in> set (non_empty_lines t) \<Longrightarrow> 0 < length l"
  by (auto simp add: non_empty_lines_def dest: strip_nonempty)

lemma sum_list_lengths_pos:
  "xs \<noteq> [] \<Longrightarrow> (\<And>x. x \<in> set xs \<Longrightarrow> 0 < length x) \<Longrightarrow> 0 < sum_list (map length xs)"
  by (induction xs) auto

lemma avg_line_length_pos:
  "non_empty_lines t \<noteq> [] \<Longrightarrow> 0 < avg_line_length t"
  using sum_list_lengths_pos [of "non_empty_lines t"] non_empty_lines_length [of _ t]
  by (simp add: avg_line_length_def Let_def)

lemma avg_line_length_zero_iff:
  "avg_line_length t = 0 \<longleftrightarrow> non_empty_lines t = []"
proof (cases "non_empty_lines t = []")
  case True
  then show ?thesis by (simp add: avg_line_length_def)
next
  case False
  then show ?thesis using avg_line_length_pos [of t] by simp
qed

lemma no_line_iff:
  "non_empty_lines t = [] \<longleftrightarrow> (\<forall>l \<in> set (splitlines t). strip l = [])"
  by (simp add: non_empty_lines_def filter_empty_conv)

text \<open>
  Claim C1.  \<open>analyze_code\<close> is a total function without an error result: for every
  text it returns a mapping whose keys are exactly the six schema keys, every value
  is non-negative, and \<open>avg_line_length\<close> is 0.0 if and only if no line of the text
  has non-empty trimmed content.  The proof uses nothing of the character classes
  but that \<open>strip\<close> of the empty line is empty.
\<close>

theorem analyze_code_total:
  "dom (analyze_code t) =
     {''loc'', ''num_comments'', ''num_functions'', ''cyclomatic_complexity_estimate'',
      ''avg_line_length'', ''num_todos''}
   \<and> (\<forall>k v. analyze_code t k = Some v \<longrightarrow> 0 \<le> v)
   \<and> (analyze_code t ''avg_line_length'' = Some 0
        \<longleftrightarrow> (\<forall>l \<in> set (splitlines t). strip l = []))"
proof (intro conjI)
  show "dom (analyze_code t) =
     {''loc'', ''num_comments'', ''num_functions'', ''cyclomatic_complexity_estimate'',
      ''avg_line_length'', ''num_todos''}"
    by (auto simp add: analyze_code_def dom_map_of_conv_image_fst)
  have "0 \<le> avg_line_length t"
    using avg_line_length_pos [of t]
    by (cases "non_empty_lines t = []") (simp_all add: avg_line_length_def)
  then show "\<forall>k v. analyze_code t k = Some v \<longrightarrow> 0 \<le> v"
    by (auto simp add: analyze_code_def cyclomatic_complexity_estimate_def split: if_splits)
  show "analyze_code t ''avg_line_length'' = Some 0
        \<longleftrightarrow> (\<forall>l \<in> set (splitlines t). strip l = [])"
    using avg_line_length_zero_iff [of t] no_line_iff [of t]
    by (simp add: analyze_code_def)
qed

lemma one_line_text:
  "splitlines ''x'' = [''x'']" "strip ''x'' = ''x''"
  "non_empty_lines ''x'' = [''x'']" "avg_line_length ''x'' = 1"
  by code_simp+

theorem analyze_code_total_witness:
  "analyze_code ''x'' ''loc'' = Some 1 \<and> (0::real) \<le> 1
   \<and> analyze_code ''x'' ''avg_line_length'' = Some 1
   \<and> ''x'' \<in> set (splitlines ''x'') \<and> strip ''x'' \<noteq> []
   \<and> dom (analyze_code ''x'') =
       {''loc'', ''num_comments'', ''num_functions'', ''cyclomatic_complexity_estimate'',
        ''avg_line_length'', ''num_todos''}"
  using analyze_code_total [of "''x''"]
  by (simp add: analyze_code_def one_line_text)

text \<open>
  The scenario of the specification, evaluated: the lines of the text, and the
  six local values of \<open>analyze_code\<close>.
\<close>

lemma scenario_lines:
  "splitlines scenario =
     [''def foo():'', ''    # comment'', ''    if x and y:'', ''        pass'']"
  unfolding scenario_def by code_simp

lemma scenario_loc: "length (non_empty_lines scenario) = 4"
  unfolding scenario_def by code_simp

lemma scenario_comments: "num_comments scenario = 1"
  unfolding scenario_def by code_simp

lemma scenario_functions: "num_functions scenario = 1"
  unfolding scenario_def by code_simp

lemma scenario_keywords: "findall_count CONTROL_KEYWORDS scenario = 2"
  unfolding scenario_def by code_simp

lemma scenario_todos: "num_todos scenario = 0"
  unfolding scenario_def by code_simp

lemma scenario_avg: "avg_line_length scenario = 25 / 2"
  unfolding scenario_def by code_simp

text \<open>
  Claim C7.  On the scenario text \<open>analyze_code\<close> returns \<open>loc = 4\<close>,
  \<open>num_comments = 1\<close>, \<open>num_functions\<close> at least 1 (it is 1),
  \<open>cyclomatic_complexity_estimate\<close> at least 3 (it is 3), \<open>avg_line_length\<close> the mean
  length of the four lines (10, 13, 15 and 12 characters), and \<open>num_todos = 0\<close>.
\<close>

theorem analyze_code_scenario:
  "analyze_code scenario ''loc'' = Some 4
   \<and> analyze_code scenario ''num_comments'' = Some 1
   \<and> (\<exists>v. analyze_code scenario ''num_functions'' = Some v \<and> 1 \<le> v)
   \<and> (\<exists>v. analyze_code scenario ''cyclomatic_complexity_estimate'' = Some v \<and> 3 \<le> v)
   \<and> analyze_code scenario ''avg_line_length''
       = Some (real (sum_list (map length (splitlines scenario))) / 4)
   \<and> map length (splitlines scenario) = [10, 13, 15, 12]
   \<and> analyze_code scenario ''num_todos'' = Some 0"
  by (simp add: analyze_code_def scenario_lines scenario_loc scenario_comments
      scenario_functions scenario_keywords scenario_todos scenario_avg
      cyclomatic_complexity_estimate_def)

text \<open>
  Claim C8.  For every text, \<open>num_comments\<close> is at most \<open>loc\<close>: a line counted as a
  comment has non-empty trimmed content (\<open>comment_line_nonempty\<close>), so it is among the
  lines \<open>loc\<close> counts.
\<close>

theorem num_comments_le_loc:
  "the (analyze_code t ''num_comments'') \<le> the (analyze_code t ''loc'')"
proof -
  have "length (filter is_comment_line xs) \<le> length (filter (\<lambda>l. strip l \<noteq> []) xs)" for xs
    by (induction xs) (auto dest: comment_line_nonempty)
  then show ?thesis
    by (simp add: analyze_code_def num_comments_def non_empty_lines_def)
qed

text \<open>
  The pattern of \<open>CONTROL_KEYWORDS\<close> at an occurrence of \<open>&&\<close> or \<open>||\<close>: neither
  character is a word character, so both boundaries of the pattern ask for a word
  character on the other side.
\<close>

lemma not_word_amp: "is_word CHR ''&'' = False" "is_word CHR ''|'' = False"
  by (simp_all add: is_word_def code_def)

lemma match_amp:
  "match_at CONTROL_KEYWORDS (p, ''&&'' @ rest) =
     (if word_before p \<and> word_after rest then Some 2 else None)"
  by (cases p; cases rest)
    (simp_all add: match_at_def CONTROL_KEYWORDS_def lit_def at_boundary_def not_word_amp
      word_before_def word_after_def)

lemma match_bar:
  "match_at CONTROL_KEYWORDS (p, ''||'' @ rest) =
     (if word_before p \<and> word_after rest then Some 2 else None)"
  by (cases p; cases rest)
    (simp_all add: match_at_def CONTROL_KEYWORDS_def lit_def at_boundary_def not_word_amp
      word_before_def word_after_def)

lemma no_match_inside:
  "\<not> is_word c \<Longrightarrow> \<not> is_word d \<Longrightarrow> match_at CONTROL_KEYWORDS (Some c, d # rest) = None"
  by (simp add: match_at_def CONTROL_KEYWORDS_def at_boundary_def word_before_def
      word_after_def)

lemma spaced_forms:
  "cyclomatic_complexity_estimate ''x && y'' = 1"
  "cyclomatic_complexity_estimate ''x || y'' = 1"
  "cyclomatic_complexity_estimate ''a&&b'' = 2"
  "cyclomatic_complexity_estimate ''a||b'' = 2"
  unfolding cyclomatic_complexity_estimate_def by code_simp+

text \<open>
  Claim C9.  Where the scan of \<open>CONTROL_KEYWORDS\<close> stands at an occurrence of \<open>&&\<close>
  (or \<open>||\<close>), the occurrence adds 1 to the count exactly when the character before
  it and the character after it are both word characters, and the scan goes on
  behind it.  So \<open>a&&b\<close> and \<open>a||b\<close> have the estimate 2.0, and the spaced forms
  \<open>x && y\<close> and \<open>x || y\<close> have the baseline 1.0 alone.
\<close>

theorem symbolic_operators_counted:
  "findall_from CONTROL_KEYWORDS 0 p (''&&'' @ rest) =
     (if word_before p \<and> word_after rest then 1 else 0)
     + findall_from CONTROL_KEYWORDS 0 (Some CHR ''&'') rest
   \<and> findall_from CONTROL_KEYWORDS 0 p (''||'' @ rest) =
     (if word_before p \<and> word_after rest then 1 else 0)
     + findall_from CONTROL_KEYWORDS 0 (Some CHR ''|'') rest
   \<and> cyclomatic_complexity_estimate ''x && y'' = 1
   \<and> cyclomatic_complexity_estimate ''x || y'' = 1
   \<and> cyclomatic_complexity_estimate ''a&&b'' = 2
   \<and> cyclomatic_complexity_estimate ''a||b'' = 2"
  using match_amp [of p rest] no_match_inside [of "CHR ''&''" "CHR ''&''" rest]
    match_bar [of p rest] no_match_inside [of "CHR ''|''" "CHR ''|''" rest]
  by (simp add: not_word_amp spaced_forms)

section \<open>Properties of the feature vectorizer\<close>

text \<open>
  Claim C2.  For every metrics mapping, with or without the schema keys,
  \<open>metrics_to_features\<close> returns one row of exactly six entries under the columns of
  the schema, in schema order; the entry of a name is the value the mapping has
  there, and 0.0 where it has none.  The function has no error result.
\<close>

theorem metrics_to_features_schema:
  "columns (metrics_to_features m) =
     [''loc'', ''num_comments'', ''num_functions'', ''cyclomatic_complexity_estimate'',
      ''avg_line_length'', ''num_todos'']
   \<and> rows (metrics_to_features m) =
     [map (\<lambda>name. Some (case m name of None \<Rightarrow> 0 | Some v \<Rightarrow> v))
        [''loc'', ''num_comments'', ''num_functions'', ''cyclomatic_complexity_estimate'',
         ''avg_line_length'', ''num_todos'']]
   \<and> length (hd (rows (metrics_to_features m))) = 6"
  by (simp add: metrics_to_features_def DataFrame_def FEATURE_COLUMNS_def get_or_def)

theorem metrics_to_features_witness:
  "rows (metrics_to_features (map_of [(''loc'', 4), (''num_comments'', 1),
      (''num_functions'', 1), (''cyclomatic_complexity_estimate'', 3),
      (''avg_line_length'', 25 / 2)]))
   = [[Some 4, Some 1, Some 1, Some 3, Some (25 / 2), Some 0]]"
  using metrics_to_features_schema [of "map_of [(''loc'', 4), (''num_comments'', 1),
      (''num_functions'', 1), (''cyclomatic_complexity_estimate'', 3),
      (''avg_line_length'', 25 / 2)]"]
  by simp

section \<open>Properties of the model provider\<close>

lemma fallback_result:
  "fst (fallback L w) =
     (Classifier (forest_fit L 100 42 (synthetic_X L) (synthetic_y (synthetic_X L))),
      ''Fallback RandomForest (synthetic)'')"
  by (simp add: fallback_def train_fallback_model_def Let_def)

lemma length_FEATURE_COLUMNS: "length FEATURE_COLUMNS = 6"
  by (simp add: FEATURE_COLUMNS_def)

text \<open>
  Claim C3, as stated, fails: nothing is cached.  Two calls for the same path in
  one process, with no file there, run the training twice.
\<close>

theorem two_calls_two_steps:
  "steps (snd (load_or_train_model toy_sklearn ''model.pkl''
      (snd (load_or_train_model toy_sklearn ''model.pkl''
         \<lparr>files = Map.empty, steps = []\<rparr>))))
   = [Train, Train]"
  by (simp add: load_or_train_model_def fallback_def)

text \<open>
  Claim C3, amended.  \<open>load_or_train_model\<close> keeps no state per path: every call
  resolves the path from the file system as it is at that call and does a load or
  train step of its own, which it adds to those done before; it leaves the file
  system as it was; and on the same file system every call returns the same
  classifier and name.
\<close>

theorem load_or_train_model_every_call:
  "files (snd (load_or_train_model L p w)) = files w
   \<and> (\<exists>new. new \<noteq> [] \<and> steps (snd (load_or_train_model L p w)) = steps w @ new)
   \<and> (files w' = files w \<longrightarrow>
        fst (load_or_train_model L p w') = fst (load_or_train_model L p w))"
  by (auto simp add: load_or_train_model_def fallback_def Let_def
      split: option.splits node.splits)

theorem load_or_train_model_every_call_witness:
  "files \<lparr>files = [''model.pkl'' \<mapsto> File ''forest''], steps = [Train]\<rparr>
     = files \<lparr>files = [''model.pkl'' \<mapsto> File ''forest''], steps = []\<rparr>
   \<and> fst (load_or_train_model toy_sklearn ''model.pkl''
        \<lparr>files = [''model.pkl'' \<mapsto> File ''forest''], steps = [Train]\<rparr>)
     = fst (load_or_train_model toy_sklearn ''model.pkl''
        \<lparr>files = [''model.pkl'' \<mapsto> File ''forest''], steps = []\<rparr>)
   \<and> steps (snd (load_or_train_model toy_sklearn ''model.pkl''
        \<lparr>files = [''model.pkl'' \<mapsto> File ''forest''], steps = [Train]\<rparr>))
     = [Train, Load ''model.pkl'']"
  using load_or_train_model_every_call [of toy_sklearn "''model.pkl''"
      "\<lparr>files = [''model.pkl'' \<mapsto> File ''forest''], steps = []\<rparr>"
      "\<lparr>files = [''model.pkl'' \<mapsto> File ''forest''], steps = [Train]\<rparr>"]
  by (simp add: load_or_train_model_def toy_sklearn_def)

text \<open>
  Claim C4.  Where no file exists at the path, any two calls of
  \<open>load_or_train_model\<close> return the same fallback classifier: the forest fitted with
  100 trees and random state 42 to the synthetic data, which is drawn by a fresh
  generator of seed 42 as a matrix of 128 rows and 6 columns.  So the two
  classifiers predict alike on every feature vector.  (The library calls are
  functions of their arguments here: that a seeded generator and a seeded forest
  repeat themselves is taken from the libraries.)
\<close>

theorem fallback_deterministic:
  assumes "files w1 p = None" and "files w2 p = None"
  shows "fst (load_or_train_model L p w1) = fst (load_or_train_model L p w2)
    \<and> fst (load_or_train_model L p w1) =
        (Classifier (forest_fit L 100 42 (synthetic_X L) (synthetic_y (synthetic_X L))),
         ''Fallback RandomForest (synthetic)'')
    \<and> synthetic_X L = fst (normal L (default_rng L 42) 128 6)
    \<and> (\<forall>c1 c2 v. fst (fst (load_or_train_model L p w1)) = Classifier c1
          \<longrightarrow> fst (fst (load_or_train_model L p w2)) = Classifier c2
          \<longrightarrow> predict L c1 v = predict L c2 v)"
  using assms
  by (simp add: load_or_train_model_def fallback_result synthetic_X_def
      length_FEATURE_COLUMNS)

theorem fallback_deterministic_witness:
  "files \<lparr>files = Map.empty, steps = []\<rparr> ''model.pkl'' = None
   \<and> files \<lparr>files = [''other.pkl'' \<mapsto> File ''forest''], steps = [Train]\<rparr> ''model.pkl'' = None
   \<and> fst (load_or_train_model toy_sklearn ''model.pkl'' \<lparr>files = Map.empty, steps = []\<rparr>)
     = fst (load_or_train_model toy_sklearn ''model.pkl''
         \<lparr>files = [''other.pkl'' \<mapsto> File ''forest''], steps = [Train]\<rparr>)"
proof -
  have a: "files \<lparr>files = Map.empty, steps = []\<rparr> ''model.pkl'' = None"
    by simp
  have b: "files \<lparr>files = [''other.pkl'' \<mapsto> File ''forest''], steps = [Train]\<rparr>
      ''model.pkl'' = None"
    by simp
  show ?thesis
    using a b fallback_deterministic [OF a b, of toy_sklearn] by blast
qed

text \<open>
  Claim C10.  Where a file exists at the path and \<open>pickle.load\<close> returns an object,
  \<open>load_or_train_model\<close> returns that object, whatever it is, under the name of a
  loaded model; the fallback is returned only where there is no file, or \<open>open\<close>
  raises, or \<open>pickle.load\<close> raises.
\<close>

theorem loaded_unvalidated:
  "(files w p = Some (File bytes) \<longrightarrow> pickle_load L bytes = Some obj \<longrightarrow>
      fst (load_or_train_model L p w) = (obj, ''Loaded saved model ('' @ basename p @ '')''))
   \<and> (snd (fst (load_or_train_model L p w)) = ''Fallback RandomForest (synthetic)''
        \<longleftrightarrow> (files w p = None \<or> files w p = Some Unopenable
             \<or> (\<exists>b. files w p = Some (File b) \<and> pickle_load L b = None)))"
  by (auto simp add: load_or_train_model_def fallback_def Let_def
      split: option.splits node.splits)

theorem loaded_unvalidated_witness:
  "fst (load_or_train_model toy_sklearn ''model/defect_model.pkl''
      \<lparr>files = [''model/defect_model.pkl'' \<mapsto> File ''text''], steps = []\<rparr>)
   = (Other ''str'', ''Loaded saved model (defect_model.pkl)'')"
  using loaded_unvalidated [of
      "\<lparr>files = [''model/defect_model.pkl'' \<mapsto> File ''text''], steps = []\<rparr>"
      "''model/defect_model.pkl''" "''text''" toy_sklearn "Other ''str''"]
  by (simp add: toy_sklearn_def basename_def)

section \<open>Properties of the dataset ingestor\<close>

lemma lower_True:
  "lower ''True'' = ''true''" "lower ''False'' = ''false''"
  "lower ''false'' = ''false''" "lower ''TRUE'' = ''true''"
  by code_simp+

lemma good_table_rows:
  "map_promise_to_features toy_pandas good_table =
     Inr [([Some 10, Some 0, Some 0, Some 2, Some 5, Some 0], 1),
          ([Some 0, Some 0, Some 0, Some 1, Some 3, Some 0], 0)]"
  by code_simp

lemma bad_table_fails: "map_promise_to_features toy_pandas bad_table = Inl Missing_loc"
  by code_simp

lemma bool_table_rows:
  "map_promise_to_features toy_pandas bool_table =
     Inr [([Some 10, Some 0, Some 0, Some 2, Some 5, Some 0], 1),
          ([Some 0, Some 0, Some 0, Some 1, Some 3, Some 0], 0)]"
  by code_simp

lemma str_of_one: "lower (int_str 1) = ''1''"
  by code_simp

lemma label_table_cast: "astype_int toy_pandas [I 1] = Some [1]"
  by (simp add: toy_pandas_def)

text \<open>
  Claim C5.  If the frame has a \<open>defects\<close> column, the labels are its values read as
  strings without regard to case: every cell, whatever its type, is first turned
  into its string (\<open>astype(str)\<close>: a boolean becomes \<open>True\<close> or \<open>False\<close>, a string stays
  as it is), the string is lower-cased, and \<open>true\<close> gives 1, \<open>false\<close> gives 0, anything
  else no label (so \<open>True\<close> gives 1 and \<open>false\<close> gives 0, as a string and as a boolean).
  Otherwise, if it has a \<open>label\<close> column, the labels are that column cast to
  integers.  Otherwise the source fails with the error of the missing label column.
\<close>

theorem label_resolution:
  "(get df ''defects'' = Some c \<longrightarrow> resolve_label P df = Inr (map (defect_label P) c))
   \<and> (lower (py_str P cell) = ''true'' \<longrightarrow> defect_label P cell = Some 1)
   \<and> (lower (py_str P cell) = ''false'' \<longrightarrow> defect_label P cell = Some 0)
   \<and> (lower (py_str P cell) \<noteq> ''true'' \<longrightarrow> lower (py_str P cell) \<noteq> ''false''
        \<longrightarrow> defect_label P cell = None)
   \<and> py_str P (B True) = ''True'' \<and> py_str P (B False) = ''False'' \<and> py_str P (S s) = s
   \<and> defect_label P (B True) = Some 1 \<and> defect_label P (B False) = Some 0
   \<and> (lower s = ''true'' \<longrightarrow> defect_label P (S s) = Some 1)
   \<and> (lower s = ''false'' \<longrightarrow> defect_label P (S s) = Some 0)
   \<and> defect_label P (S ''True'') = Some 1 \<and> defect_label P (S ''false'') = Some 0
   \<and> (get df ''defects'' = None \<longrightarrow> get df ''label'' = Some c \<longrightarrow>
        resolve_label P df =
          (case astype_int P c of None \<Rightarrow> Inl CastError | Some ls \<Rightarrow> Inr (map Some ls)))
   \<and> (get df ''defects'' = None \<longrightarrow> get df ''label'' = None \<longrightarrow>
        resolve_label P df = Inl Missing_label
        \<and> map_promise_to_features P df = Inl Missing_label)"
  by (auto simp add: resolve_label_def map_promise_to_features_def bind_def cast_def
      defect_label_def lower_True split: option.splits)

theorem label_resolution_witness:
  "get bool_table ''defects'' = Some [B True, B False]
   \<and> resolve_label toy_pandas bool_table = Inr [Some 1, Some 0]
   \<and> map_promise_to_features toy_pandas bool_table =
       Inr [([Some 10, Some 0, Some 0, Some 2, Some 5, Some 0], 1),
            ([Some 0, Some 0, Some 0, Some 1, Some 3, Some 0], 0)]
   \<and> lower (py_str toy_pandas (B True)) = ''true''
   \<and> defect_label toy_pandas (B True) = Some 1
   \<and> lower (py_str toy_pandas (B False)) = ''false''
   \<and> defect_label toy_pandas (B False) = Some 0
   \<and> lower (py_str toy_pandas (I 1)) \<noteq> ''true''
   \<and> lower (py_str toy_pandas (I 1)) \<noteq> ''false''
   \<and> defect_label toy_pandas (I 1) = None
   \<and> get good_table ''defects'' = Some [S ''True'', S ''false'']
   \<and> resolve_label toy_pandas good_table = Inr [Some 1, Some 0]
   \<and> lower ''TRUE'' = ''true'' \<and> defect_label toy_pandas (S ''TRUE'') = Some 1
   \<and> lower ''False'' = ''false'' \<and> defect_label toy_pandas (S ''False'') = Some 0
   \<and> get label_table ''defects'' = None \<and> get label_table ''label'' = Some [I 1]
   \<and> resolve_label toy_pandas label_table = Inr [Some 1]
   \<and> get unlabeled_table ''defects'' = None \<and> get unlabeled_table ''label'' = None
   \<and> map_promise_to_features toy_pandas unlabeled_table = Inl Missing_label"
  using label_resolution [of bool_table "[B True, B False]" toy_pandas "B True" "''TRUE''"]
    label_resolution [of good_table "[S ''True'', S ''false'']" toy_pandas "B False"
      "''False''"]
    label_resolution [of label_table "[I 1]" toy_pandas "I 1" "''False''"]
    label_resolution [of unlabeled_table "[]" toy_pandas "B True" "[]"]
    bool_table_rows
  by (simp add: get_def bool_table_def good_table_def label_table_def
      unlabeled_table_def lower_True str_of_one label_table_cast)

text \<open>The loop of \<open>load_promise_datasets\<close> and the sources that fail.\<close>

lemma gather_skip:
  "fs p = Some Malformed
     \<or> (\<exists>df e. fs p = Some (Table df) \<and> map_promise_to_features P df = Inl e)
   \<Longrightarrow> gather P (fs(p := None)) d names = gather P fs d names"
  by (induction names) (auto split: option.splits csv.splits sum.splits)

lemma gather_none:
  "\<forall>name \<in> set names. fs (join d name) = None \<or> fs (join d name) = Some Malformed
      \<or> (\<exists>df e. fs (join d name) = Some (Table df)
           \<and> map_promise_to_features P df = Inl e)
   \<Longrightarrow> gather P fs d names = []"
  by (induction names) (auto split: option.splits csv.splits sum.splits)

lemma gather_mem:
  "name \<in> set names \<Longrightarrow> fs (join d name) = Some (Table df)
   \<Longrightarrow> map_promise_to_features P df = Inr m \<Longrightarrow> m \<in> set (gather P fs d names)"
  by (induction names) (auto split: option.splits csv.splits sum.splits)

lemma joins:
  "join ''data'' ''cm1.csv'' = ''data/cm1.csv''"
  "join ''data'' ''kc1.csv'' = ''data/kc1.csv''"
  "join ''data'' ''kc2.csv'' = ''data/kc2.csv''"
  "join ''data'' ''pc1.csv'' = ''data/pc1.csv''"
  "join ''data'' ''jm1.csv'' = ''data/jm1.csv''"
  by (simp_all add: join_def)

lemma dropna_good:
  "dropna toy_pandas [([Some 10, Some 0, Some 0, Some 2, Some 5, Some 0], 1),
             ([Some 0, Some 0, Some 0, Some 1, Some 3, Some 0], 0)]
   = [([Some 10, Some 0, Some 0, Some 2, Some 5, Some 0], 1),
             ([Some 0, Some 0, Some 0, Some 1, Some 3, Some 0], 0)]"
  by (simp add: dropna_def toy_pandas_def)

text \<open>
  Claim C6, as stated, fails in one part: the ingestor does not surface which
  sources failed.  A batch in which \<open>cm1.csv\<close> fails (it has no loc column) and a
  batch in which \<open>cm1.csv\<close> does not exist give the same result, the rows of
  \<open>kc1.csv\<close>, and the result is all that \<open>load_promise_datasets\<close> returns.
\<close>

theorem failed_source_not_surfaced:
  "load_promise_datasets toy_pandas
      [''data/cm1.csv'' \<mapsto> Table bad_table, ''data/kc1.csv'' \<mapsto> Table good_table] ''data''
     = Some [([Some 10, Some 0, Some 0, Some 2, Some 5, Some 0], 1),
             ([Some 0, Some 0, Some 0, Some 1, Some 3, Some 0], 0)]
   \<and> load_promise_datasets toy_pandas [''data/kc1.csv'' \<mapsto> Table good_table] ''data''
     = Some [([Some 10, Some 0, Some 0, Some 2, Some 5, Some 0], 1),
             ([Some 0, Some 0, Some 0, Some 1, Some 3, Some 0], 0)]"
  by (simp add: load_promise_datasets_def PROMISE_FILENAMES_def joins good_table_rows
      bad_table_fails dropna_good)

text \<open>
  Claim C6, amended.  A source that fails (\<open>read_csv\<close> raises, or the mapping raises)
  does not abort the batch: it is skipped without a trace, so that the result is
  the one of the batch without that source; a source that maps is ingested, its
  rows (those without NaN) being in the result; and where every source is absent
  or fails the result is \<open>None\<close>, not an exception.
\<close>

theorem failing_source_skipped:
  "(fs p = Some Malformed
      \<or> (\<exists>df e. fs p = Some (Table df) \<and> map_promise_to_features P df = Inl e)
     \<longrightarrow> load_promise_datasets P fs d = load_promise_datasets P (fs(p := None)) d)
   \<and> (name \<in> set PROMISE_FILENAMES \<and> fs (join d name) = Some (Table df')
        \<and> map_promise_to_features P df' = Inr m
     \<longrightarrow> (\<exists>rs. load_promise_datasets P fs d = Some rs \<and> set (dropna P m) \<subseteq> set rs))
   \<and> ((\<forall>name \<in> set PROMISE_FILENAMES.
         fs (join d name) = None \<or> fs (join d name) = Some Malformed
         \<or> (\<exists>df e. fs (join d name) = Some (Table df)
              \<and> map_promise_to_features P df = Inl e))
     \<longrightarrow> load_promise_datasets P fs d = None)"
proof (intro conjI impI)
  assume "fs p = Some Malformed
      \<or> (\<exists>df e. fs p = Some (Table df) \<and> map_promise_to_features P df = Inl e)"
  then show "load_promise_datasets P fs d = load_promise_datasets P (fs(p := None)) d"
    using gather_skip [of fs p P d PROMISE_FILENAMES]
    by (simp add: load_promise_datasets_def)
next
  assume "name \<in> set PROMISE_FILENAMES \<and> fs (join d name) = Some (Table df')
        \<and> map_promise_to_features P df' = Inr m"
  then have "m \<in> set (gather P fs d PROMISE_FILENAMES)"
    using gather_mem by fastforce
  then show "\<exists>rs. load_promise_datasets P fs d = Some rs \<and> set (dropna P m) \<subseteq> set rs"
    by (auto simp add: load_promise_datasets_def Let_def dropna_def)
next
  assume "\<forall>name \<in> set PROMISE_FILENAMES.
         fs (join d name) = None \<or> fs (join d name) = Some Malformed
         \<or> (\<exists>df e. fs (join d name) = Some (Table df)
              \<and> map_promise_to_features P df = Inl e)"
  then have "gather P fs d PROMISE_FILENAMES = []"
    by (rule gather_none)
  then show "load_promise_datasets P fs d = None"
    by (simp add: load_promise_datasets_def)
qed

theorem failing_source_skipped_witness:
  "map_promise_to_features toy_pandas bad_table = Inl Missing_loc
   \<and> load_promise_datasets toy_pandas
        [''data/cm1.csv'' \<mapsto> Table bad_table, ''data/kc1.csv'' \<mapsto> Table good_table] ''data''
     = load_promise_datasets toy_pandas
        ([''data/cm1.csv'' \<mapsto> Table bad_table, ''data/kc1.csv'' \<mapsto> Table good_table]
          (''data/cm1.csv'' := None)) ''data''
   \<and> load_promise_datasets toy_pandas [''data/cm1.csv'' \<mapsto> Table bad_table] ''data'' = None"
proof -
  have "load_promise_datasets toy_pandas
        [''data/cm1.csv'' \<mapsto> Table bad_table, ''data/kc1.csv'' \<mapsto> Table good_table] ''data''
     = load_promise_datasets toy_pandas
        ([''data/cm1.csv'' \<mapsto> Table bad_table, ''data/kc1.csv'' \<mapsto> Table good_table]
          (''data/cm1.csv'' := None)) ''data''"
    using failing_source_skipped [of
      "[''data/cm1.csv'' \<mapsto> Table bad_table, ''data/kc1.csv'' \<mapsto> Table good_table]"
      "''data/cm1.csv''" toy_pandas "''data''", THEN conjunct1] bad_table_fails
    by simp
  moreover have "load_promise_datasets toy_pandas
      [''data/cm1.csv'' \<mapsto> Table bad_table] ''data'' = None"
    using failing_source_skipped [of "[''data/cm1.csv'' \<mapsto> Table bad_table]"
      "''data/cm1.csv''" toy_pandas "''data''", THEN conjunct2, THEN conjunct2]
      bad_table_fails
    by (simp add: PROMISE_FILENAMES_def joins)
  ultimately show ?thesis
    using bad_table_fails by simp
qed

end
